theory Spec2Isabelle
  imports Main
begin

section \<open>Data: the User record and the default user (data.ts)\<close>

record User =
  name :: string
  interests :: "string list"

text \<open>
  \<^verbatim>\<open>const defaultUser: User = { name: "Duane",
     interests: ["Coding", "Biking", "Words ending in 'ing'"] }\<close>.
  The last interest ends with an apostrophe, written as the character 0x27.
\<close>

definition defaultUser :: User where
  "defaultUser =
     \<lparr>name = ''Duane'',
      interests = [''Coding'', ''Biking'', ''Words ending in 'ing'' @ [CHR 0x27]]\<rparr>"

section \<open>The shared cell behind a state hook\<close>

text \<open>
  Modelled from the spec: the cell that a \<^verbatim>\<open>useState\<close> hook allocates, and the
  notification by which the host framework renders the consumers of a value again, are
  not part of the source files; the contract of the shared cell in section 4.1 of the
  specification is followed. A cell holds the current value and an ordered set of
  listeners. The field \<open>notified\<close> records every notification delivered so far,
  oldest first, each with the listener and the value it was given.
\<close>

record ('a, 'l) SharedCell =
  cell_value :: 'a
  listeners :: "'l list"
  notified :: "('l \<times> 'a) list"

text \<open>Modelled from the spec: \<^verbatim>\<open>create(initial)\<close> allocates a cell with the given
  initial value and no listener.\<close>

definition create :: "'a \<Rightarrow> ('a, 'l) SharedCell" where
  "create initial = \<lparr>cell_value = initial, listeners = [], notified = []\<rparr>"

text \<open>Modelled from the spec: \<^verbatim>\<open>read(handle)\<close> returns the current value.\<close>

definition read :: "('a, 'l) SharedCell \<Rightarrow> 'a" where
  "read c = cell_value c"

text \<open>Modelled from the spec: \<^verbatim>\<open>write(handle, newValue)\<close> replaces the value, then
  notifies every currently registered listener with the new value, in registration order.\<close>

definition "write" :: "('a, 'l) SharedCell \<Rightarrow> 'a \<Rightarrow> ('a, 'l) SharedCell" where
  "write c newValue =
     c\<lparr>cell_value := newValue,
       notified := notified c @ map (\<lambda>l. (l, newValue)) (listeners c)\<rparr>"

text \<open>Modelled from the spec: \<^verbatim>\<open>subscribe(handle, listener)\<close> registers a listener; the
  listeners form a set, so registering a listener again changes nothing.\<close>

definition subscribe :: "('a, 'l) SharedCell \<Rightarrow> 'l \<Rightarrow> ('a, 'l) SharedCell" where
  "subscribe c l =
     (if l \<in> set (listeners c) then c else c\<lparr>listeners := listeners c @ [l]\<rparr>)"

section \<open>Application state\<close>

text \<open>The view nodes of the component tree; they identify the listeners of a cell.\<close>

datatype view_node =
    App_node | UserProvider_node | Header_node | ThemedButton_node
  | DarkModeToggle_node | Profile_node | Interests_node

text \<open>
  One cell per \<^verbatim>\<open>useState\<close> call: \<^verbatim>\<open>theme\<close> and \<^verbatim>\<open>user\<close> of \<^verbatim>\<open>App\<close>
  (the latter is declared and never used), and \<^verbatim>\<open>user\<close> of \<^verbatim>\<open>UserProvider\<close>,
  which is the shared user cell.
\<close>

record state =
  App_theme :: "(string, view_node) SharedCell"
  App_user :: "(User option, view_node) SharedCell"
  UserProvider_user :: "(User option, view_node) SharedCell"

text \<open>
  \<^verbatim>\<open>UserProvider\<close> rendered again: \<^verbatim>\<open>value={{ user, setUser }}\<close> (user.tsx, line 22)
  is a fresh object at every rendering, so the Provider runs every consumer of the user
  context again, each with the user value as it is.
\<close>

definition UserProvider_rendered_again :: "state \<Rightarrow> state" where
  "UserProvider_rendered_again s =
     s\<lparr>UserProvider_user :=
          (UserProvider_user s)\<lparr>notified :=
             notified (UserProvider_user s)
               @ map (\<lambda>l. (l, read (UserProvider_user s))) (listeners (UserProvider_user s))\<rparr>\<rparr>"

text \<open>
  The setters returned by the two hooks that are used. The theme is state of
  \<^verbatim>\<open>App\<close>, and \<^verbatim>\<open>UserProvider\<close> is rendered inside \<^verbatim>\<open>App\<close> (App.tsx, lines
  12 to 16): a write of the theme renders \<^verbatim>\<open>App\<close> again and \<^verbatim>\<open>UserProvider\<close> with
  it. The user is state of \<^verbatim>\<open>UserProvider\<close>: a write of the user notifies the
  consumers of the user context with the new value and does not reach \<^verbatim>\<open>App\<close>.
\<close>

definition App_setTheme :: "string \<Rightarrow> state \<Rightarrow> state" where
  "App_setTheme theme s =
     UserProvider_rendered_again (s\<lparr>App_theme := write (App_theme s) theme\<rparr>)"

definition UserProvider_setUser :: "User option \<Rightarrow> state \<Rightarrow> state" where
  "UserProvider_setUser u s = s\<lparr>UserProvider_user := write (UserProvider_user s) u\<rparr>"

section \<open>The user context (context/user.tsx)\<close>

text \<open>
  A property of a JavaScript object is either absent (reading it gives
  \<^verbatim>\<open>undefined\<close>) or holds a value. Calling an absent property raises a TypeError.
\<close>

datatype 'a js_optional = Undefined | Defined 'a

datatype error = TypeError string

record UserContextType =
  user :: "User option js_optional"
  setUser :: "(User option \<Rightarrow> state \<Rightarrow> state) js_optional"

text \<open>\<^verbatim>\<open>React.createContext<User | UserContextType>({} as UserContextType)\<close>: the
  default value is the empty object.\<close>

definition UserContext_default :: UserContextType where
  "UserContext_default = \<lparr>user = Undefined, setUser = Undefined\<rparr>"

text \<open>
  The environment of a component is the value of the nearest enclosing
  \<^verbatim>\<open>UserContext.Provider\<close>, if there is one; \<^verbatim>\<open>useContext(UserContext)\<close> returns
  it, and the default value of the context otherwise.
\<close>

type_synonym env = "UserContextType option"

definition useContext :: "env \<Rightarrow> UserContextType" where
  "useContext e = (case e of None \<Rightarrow> UserContext_default | Some v \<Rightarrow> v)"

text \<open>\<^verbatim>\<open><UserContext.Provider value={{ user, setUser }}>{children}</...>\<close>\<close>

definition UserProvider :: "state \<Rightarrow> (env \<Rightarrow> 'r) \<Rightarrow> 'r" where
  "UserProvider s children =
     children (Some \<lparr>user = Defined (read (UserProvider_user s)),
                     setUser = Defined UserProvider_setUser\<rparr>)"

text \<open>Truthiness of a value of type \<^verbatim>\<open>User | null\<close>, or of an absent property.\<close>

fun truthy :: "User option js_optional \<Rightarrow> bool" where
  "truthy Undefined = False"
| "truthy (Defined None) = False"
| "truthy (Defined (Some u)) = True"

fun call :: "('a \<Rightarrow> state \<Rightarrow> state) js_optional \<Rightarrow> 'a \<Rightarrow> state \<Rightarrow> error + state" where
  "call Undefined v s = Inl (TypeError ''setUser is not a function'')"
| "call (Defined f) v s = Inr (f v s)"

section \<open>The rendered tree\<close>

text \<open>
  An element carries its event handlers as functions on the application state; the
  argument of a change handler is \<^verbatim>\<open>e.target.checked\<close>. The component
  \<^verbatim>\<open>Interests\<close> is not among the source files, so its element is kept unexpanded,
  with the two props it is given.
\<close>

datatype jsx_prop =
    className string
  | type_attr string
  | checked bool
  | onClick "state \<Rightarrow> error + state"
  | onChange "bool \<Rightarrow> state \<Rightarrow> error + state"

datatype vnode =
    Text string
  | Element string "jsx_prop list" "vnode list"
  | Interests "string list" string

section \<open>Components\<close>

text \<open>ThemedButton.tsx: \<^verbatim>\<open><button className={theme} {...props} />\<close>. The props are
  spread after \<^verbatim>\<open>className\<close>, so a class name among them replaces the theme.\<close>

fun has_className :: "jsx_prop list \<Rightarrow> bool" where
  "has_className [] = False"
| "has_className (className c # ps) = True"
| "has_className (p # ps) = has_className ps"

definition ThemedButton :: "string \<Rightarrow> jsx_prop list \<Rightarrow> vnode list \<Rightarrow> vnode" where
  "ThemedButton theme props children =
     Element ''button'' ((if has_className props then [] else [className theme]) @ props) children"

text \<open>DarkModeToggle.tsx\<close>

definition handleToggleTheme :: "(string \<Rightarrow> state \<Rightarrow> state) \<Rightarrow> bool \<Rightarrow> state \<Rightarrow> error + state" where
  "handleToggleTheme setTheme e_target_checked s =
     Inr (setTheme (if e_target_checked then ''dark'' else ''light'') s)"

definition DarkModeToggle :: "string \<Rightarrow> (string \<Rightarrow> state \<Rightarrow> state) \<Rightarrow> vnode" where
  "DarkModeToggle theme setTheme =
     Element ''label'' []
       [Text ''Dark Mode'',
        Element ''input''
          [type_attr ''checkbox'', checked (theme = ''dark''),
           onChange (handleToggleTheme setTheme)] []]"

text \<open>Header.tsx\<close>

definition handleLogin :: "UserContextType \<Rightarrow> state \<Rightarrow> error + state" where
  "handleLogin ctx s =
     (if truthy (user ctx) then call (setUser ctx) None s
      else call (setUser ctx) (Some defaultUser) s)"

definition Header :: "string \<Rightarrow> (string \<Rightarrow> state \<Rightarrow> state) \<Rightarrow> env \<Rightarrow> error + vnode" where
  "Header theme setTheme e =
     (let ctx = useContext e in
      Inr (Element ''header'' []
        [Element ''h1'' [] [Text ''React Context''],
         Element ''nav'' []
           [ThemedButton theme [onClick (handleLogin ctx)]
              [Text (if truthy (user ctx) then ''Logout'' else ''Login'')],
            DarkModeToggle theme setTheme]]))"

text \<open>Profile.tsx\<close>

definition Profile :: "string \<Rightarrow> env \<Rightarrow> error + vnode" where
  "Profile theme e =
     (let ctx = useContext e in
      case user ctx of
        Defined (Some u) \<Rightarrow>
          Inr (Element ''div'' []
            [Element ''h2'' [] [Text (name u), Text (CHR 0x27 # ''s Profile'')],
             Interests (interests u) theme])
      | _ \<Rightarrow> Inr (Element ''h2'' [] [Text ''Please Login To View Profile'']))"

text \<open>App.tsx\<close>

definition App :: "state \<Rightarrow> error + vnode" where
  "App s =
     (let theme = read (App_theme s) in
      case UserProvider s (\<lambda>e.
             case Header theme App_setTheme e of
               Inl err \<Rightarrow> Inl err
             | Inr h \<Rightarrow>
                 (case Profile theme e of
                    Inl err \<Rightarrow> Inl err
                  | Inr p \<Rightarrow> Inr [h, p])) of
        Inl err \<Rightarrow> Inl err
      | Inr children \<Rightarrow> Inr (Element ''main'' [className theme] children))"

text \<open>
  Mounting the root: every hook allocates its cell with the initial value that its
  \<^verbatim>\<open>useState\<close> call gives. Modelled from the spec: the registration of the consumers
  is the host framework's; as sections 2 and 4.3 of the specification describe it, the
  two components that call \<^verbatim>\<open>useContext(UserContext)\<close>, \<^verbatim>\<open>Header\<close> and then
  \<^verbatim>\<open>Profile\<close>, become the listeners of the shared user cell.
\<close>

definition mount :: state where
  "mount =
     \<lparr>App_theme = create ''dark'',
      App_user = create None,
      UserProvider_user = subscribe (subscribe (create None) Header_node) Profile_node\<rparr>"

section \<open>Reading the rendered tree and dispatching events\<close>

fun text_content :: "vnode \<Rightarrow> string" where
  "text_content (Text t) = t"
| "text_content (Element tag props children) = concat (map text_content children)"
| "text_content (Interests is theme) = []"

fun elements :: "string \<Rightarrow> vnode \<Rightarrow> vnode list" where
  "elements tag (Text t) = []"
| "elements tag (Element tag' props children) =
     (if tag' = tag then [Element tag' props children] else [])
       @ concat (map (elements tag) children)"
| "elements tag (Interests is theme) = []"

fun click_handlers :: "jsx_prop list \<Rightarrow> (state \<Rightarrow> error + state) list" where
  "click_handlers [] = []"
| "click_handlers (onClick h # ps) = h # click_handlers ps"
| "click_handlers (p # ps) = click_handlers ps"

fun change_handlers :: "jsx_prop list \<Rightarrow> (bool \<Rightarrow> state \<Rightarrow> error + state) list" where
  "change_handlers [] = []"
| "change_handlers (onChange h # ps) = h # change_handlers ps"
| "change_handlers (p # ps) = change_handlers ps"

fun props_of :: "vnode \<Rightarrow> jsx_prop list" where
  "props_of (Element tag props children) = props"
| "props_of v = []"

fun run_handlers :: "(state \<Rightarrow> error + state) list \<Rightarrow> state \<Rightarrow> error + state" where
  "run_handlers [] s = Inr s"
| "run_handlers (h # hs) s = (case h s of Inl err \<Rightarrow> Inl err | Inr s' \<Rightarrow> run_handlers hs s')"

text \<open>The labels of the buttons of a tree, and the two user events on a tree: a click
  on its buttons, and a change of its inputs to the given checked state.\<close>

definition button_labels :: "vnode \<Rightarrow> string list" where
  "button_labels v = map text_content (elements ''button'' v)"

definition click :: "vnode \<Rightarrow> state \<Rightarrow> error + state" where
  "click v s = run_handlers (concat (map (click_handlers \<circ> props_of) (elements ''button'' v))) s"

definition change :: "vnode \<Rightarrow> bool \<Rightarrow> state \<Rightarrow> error + state" where
  "change v b s =
     run_handlers (map (\<lambda>h. h b) (concat (map (change_handlers \<circ> props_of) (elements ''input'' v)))) s"

datatype event = Click_login | Change_dark_mode bool

text \<open>One event on the mounted application: the tree is rendered from the current
  state and the handlers of the control run on that state.\<close>

definition step :: "state \<Rightarrow> event \<Rightarrow> error + state" where
  "step s ev =
     (case App s of
        Inl err \<Rightarrow> Inl err
      | Inr v \<Rightarrow> (case ev of Click_login \<Rightarrow> click v s | Change_dark_mode b \<Rightarrow> change v b s))"

inductive reachable :: "state \<Rightarrow> bool" where
  reachable_mount: "reachable mount"
| reachable_step: "reachable s \<Longrightarrow> step s ev = Inr s' \<Longrightarrow> reachable s'"

text \<open>The notifications that the shared user cell delivered between two states.\<close>

definition deliveries :: "state \<Rightarrow> state \<Rightarrow> (view_node \<times> User option) list" where
  "deliveries s s' =
     drop (length (notified (UserProvider_user s))) (notified (UserProvider_user s'))"

section \<open>Basic facts\<close>

lemma step_Click_login:
  "step s Click_login =
     Inr (UserProvider_setUser
            (if read (UserProvider_user s) = None then Some defaultUser else None) s)"
  by (cases "read (UserProvider_user s)")
     (simp_all add: step_def App_def UserProvider_def Header_def Profile_def useContext_def
        ThemedButton_def DarkModeToggle_def click_def handleLogin_def Let_def)

lemma step_Change_dark_mode:
  "step s (Change_dark_mode b) = Inr (App_setTheme (if b then ''dark'' else ''light'') s)"
  by (cases "read (UserProvider_user s)")
     (simp_all add: step_def App_def UserProvider_def Header_def Profile_def useContext_def
        ThemedButton_def DarkModeToggle_def change_def handleToggleTheme_def Let_def)

lemma read_write: "read (write c v) = v"
  by (simp add: write_def read_def)

lemma read_setUser: "read (UserProvider_user (UserProvider_setUser v s)) = v"
  by (simp add: UserProvider_setUser_def write_def read_def)

lemma listeners_setUser:
  "listeners (UserProvider_user (UserProvider_setUser v s)) = listeners (UserProvider_user s)"
  by (simp add: UserProvider_setUser_def write_def)

lemma deliveries_setUser:
  "deliveries s (UserProvider_setUser v s) = map (\<lambda>l. (l, v)) (listeners (UserProvider_user s))"
  by (simp add: deliveries_def UserProvider_setUser_def write_def)

lemma read_setTheme: "read (App_theme (App_setTheme t s)) = t"
  by (simp add: App_setTheme_def UserProvider_rendered_again_def write_def read_def)

lemma user_cell_setTheme:
  "UserProvider_user (App_setTheme t s) =
     (UserProvider_user s)\<lparr>notified :=
        notified (UserProvider_user s)
          @ map (\<lambda>l. (l, read (UserProvider_user s))) (listeners (UserProvider_user s))\<rparr>"
  by (simp add: App_setTheme_def UserProvider_rendered_again_def)




lemma filter_not_listener:
  "l \<notin> set ls \<Longrightarrow> filter (\<lambda>n. fst n = l) (map (\<lambda>l. (l, v)) ls) = []"
  by (induction ls) auto

lemma filter_listener_once:
  "distinct ls \<Longrightarrow> l \<in> set ls \<Longrightarrow> filter (\<lambda>n. fst n = l) (map (\<lambda>l. (l, v)) ls) = [(l, v)]"
  by (induction ls) (auto simp: filter_not_listener)

lemma mount_user_cell:
  "UserProvider_user mount =
     \<lparr>cell_value = None, listeners = [Header_node, Profile_node], notified = []\<rparr>"
  by (simp add: mount_def create_def subscribe_def)

lemma logged_in_state:
  "UserProvider_user (UserProvider_setUser (Some defaultUser) mount) =
     \<lparr>cell_value = Some defaultUser, listeners = [Header_node, Profile_node],
      notified = [(Header_node, Some defaultUser), (Profile_node, Some defaultUser)]\<rparr>"
  by (simp add: UserProvider_setUser_def write_def mount_user_cell)

lemma theme_reachable:
  "reachable s \<Longrightarrow> read (App_theme s) = ''dark'' \<or> read (App_theme s) = ''light''"
proof (induction rule: reachable.induct)
  case reachable_mount
  show ?case by (simp add: mount_def create_def read_def)
next
  case (reachable_step s ev s')
  show ?case
  proof (cases ev)
    case Click_login
    with reachable_step show ?thesis
      by (auto simp add: step_Click_login UserProvider_setUser_def)
  next
    case (Change_dark_mode b)
    with reachable_step have "s' = App_setTheme (if b then ''dark'' else ''light'') s"
      by (simp add: step_Change_dark_mode)
    then show ?thesis by (simp add: read_setTheme)
  qed
qed

lemma user_reachable:
  "reachable s \<Longrightarrow>
     (read (UserProvider_user s) = None \<or> read (UserProvider_user s) = Some defaultUser)
     \<and> snd ` set (notified (UserProvider_user s)) \<subseteq> {None, Some defaultUser}"
proof (induction rule: reachable.induct)
  case reachable_mount
  show ?case by (simp add: mount_user_cell read_def)
next
  case (reachable_step s ev s')
  show ?case
  proof (cases ev)
    case Click_login
    with reachable_step have s': "s' = UserProvider_setUser
            (if read (UserProvider_user s) = None then Some defaultUser else None) s"
      by (simp add: step_Click_login)
    have "snd ` set (notified (UserProvider_user s')) \<subseteq> {None, Some defaultUser}"
      using reachable_step.IH unfolding s'
      by (auto simp add: UserProvider_setUser_def write_def)
    moreover have "read (UserProvider_user s') = None \<or> read (UserProvider_user s') = Some defaultUser"
      unfolding s' by (simp add: read_setUser)
    ultimately show ?thesis by blast
  next
    case (Change_dark_mode b)
    with reachable_step have "s' = App_setTheme (if b then ''dark'' else ''light'') s"
      by (simp add: step_Change_dark_mode)
    then have c: "UserProvider_user s' =
        (UserProvider_user s)\<lparr>notified :=
           notified (UserProvider_user s)
             @ map (\<lambda>l. (l, read (UserProvider_user s))) (listeners (UserProvider_user s))\<rparr>"
      by (simp add: user_cell_setTheme)
    have "read (UserProvider_user s') = read (UserProvider_user s)"
      unfolding c by (simp add: read_def)
    moreover have "snd ` set (notified (UserProvider_user s')) \<subseteq> {None, Some defaultUser}"
      using reachable_step.IH unfolding c by auto
    ultimately show ?thesis using reachable_step.IH by simp
  qed
qed

section \<open>The claims\<close>

subsection \<open>Initial state\<close>

text \<open>
  Claim C3. Right after the root is mounted, before any event, the shared user cell
  reads null and the theme reads "dark"; the context hands null to its consumers, and
  the first rendering is the logged-out page in the dark theme.
\<close>

theorem initial_state:
  "read (UserProvider_user mount) = None \<and> read (App_theme mount) = ''dark''
   \<and> UserProvider mount (\<lambda>e. user (useContext e)) = Defined None
   \<and> App mount =
       Inr (Element ''main'' [className ''dark'']
         [Element ''header'' []
            [Element ''h1'' [] [Text ''React Context''],
             Element ''nav'' []
               [Element ''button''
                  [className ''dark'',
                   onClick (handleLogin \<lparr>user = Defined None, setUser = Defined UserProvider_setUser\<rparr>)]
                  [Text ''Login''],
                Element ''label'' []
                  [Text ''Dark Mode'',
                   Element ''input''
                     [type_attr ''checkbox'', checked True,
                      onChange (handleToggleTheme App_setTheme)] []]]],
          Element ''h2'' [] [Text ''Please Login To View Profile'']])"
  by (simp add: mount_def create_def subscribe_def read_def UserProvider_def useContext_def
      App_def Header_def Profile_def ThemedButton_def DarkModeToggle_def Let_def)

subsection \<open>Login\<close>

text \<open>
  Claim C1. In every state whose shared user value is null, activating the login control
  succeeds and sets the shared user value to the default record (name "Duane", interests
  "Coding", "Biking", "Words ending in 'ing'"); the notifications delivered by this event
  are one per registered listener, in registration order, each with this record, so that
  every listener of the ordered set is notified exactly once.
\<close>

theorem login_transition:
  assumes "read (UserProvider_user s) = None"
  shows "\<exists>s'. step s Click_login = Inr s'
     \<and> read (UserProvider_user s') =
         Some \<lparr>name = ''Duane'',
               interests = [''Coding'', ''Biking'', ''Words ending in 'ing'' @ [CHR 0x27]]\<rparr>
     \<and> read (UserProvider_user s') = Some defaultUser
     \<and> listeners (UserProvider_user s') = listeners (UserProvider_user s)
     \<and> deliveries s s' = map (\<lambda>l. (l, Some defaultUser)) (listeners (UserProvider_user s))
     \<and> (distinct (listeners (UserProvider_user s)) \<longrightarrow>
          (\<forall>l \<in> set (listeners (UserProvider_user s)).
             filter (\<lambda>n. fst n = l) (deliveries s s') = [(l, Some defaultUser)]))"
proof -
  let ?s' = "UserProvider_setUser (Some defaultUser) s"
  have st: "step s Click_login = Inr ?s'"
    using assms by (simp add: step_Click_login)
  have once: "distinct (listeners (UserProvider_user s)) \<longrightarrow>
          (\<forall>l \<in> set (listeners (UserProvider_user s)).
             filter (\<lambda>n. fst n = l) (deliveries s ?s') = [(l, Some defaultUser)])"
    by (simp add: deliveries_setUser filter_listener_once)
  have rec: "read (UserProvider_user ?s') = Some \<lparr>name = ''Duane'',
               interests = [''Coding'', ''Biking'', ''Words ending in 'ing'' @ [CHR 0x27]]\<rparr>"
    by (simp add: read_setUser defaultUser_def)
  show ?thesis
    using st once rec by (simp add: read_setUser listeners_setUser deliveries_setUser)
qed

theorem login_transition_witness:
  "read (UserProvider_user mount) = None
   \<and> distinct (listeners (UserProvider_user mount))
   \<and> set (listeners (UserProvider_user mount)) = {Header_node, Profile_node}
   \<and> (\<exists>s'. step mount Click_login = Inr s'
        \<and> read (UserProvider_user s') = Some defaultUser
        \<and> deliveries mount s' = [(Header_node, Some defaultUser), (Profile_node, Some defaultUser)]
        \<and> filter (\<lambda>n. fst n = Header_node) (deliveries mount s') = [(Header_node, Some defaultUser)]
        \<and> filter (\<lambda>n. fst n = Profile_node) (deliveries mount s') = [(Profile_node, Some defaultUser)])"
proof -
  have h: "read (UserProvider_user mount) = None"
    by (simp add: mount_user_cell read_def)
  have d: "distinct (listeners (UserProvider_user mount))"
    by (simp add: mount_user_cell)
  from login_transition [OF h] obtain s' where
    a: "step mount Click_login = Inr s'" and
    b: "read (UserProvider_user s') = Some defaultUser" and
    c: "deliveries mount s' = map (\<lambda>l. (l, Some defaultUser)) (listeners (UserProvider_user mount))" and
    e: "distinct (listeners (UserProvider_user mount)) \<longrightarrow>
          (\<forall>l \<in> set (listeners (UserProvider_user mount)).
             filter (\<lambda>n. fst n = l) (deliveries mount s') = [(l, Some defaultUser)])"
    by blast
  from e d have f: "\<forall>l \<in> set (listeners (UserProvider_user mount)).
             filter (\<lambda>n. fst n = l) (deliveries mount s') = [(l, Some defaultUser)]"
    by blast
  have g: "filter (\<lambda>n. fst n = Header_node) (deliveries mount s') = [(Header_node, Some defaultUser)]"
    using f by (simp add: mount_user_cell)
  have i: "filter (\<lambda>n. fst n = Profile_node) (deliveries mount s') = [(Profile_node, Some defaultUser)]"
    using f by (simp add: mount_user_cell)
  have j: "deliveries mount s' = [(Header_node, Some defaultUser), (Profile_node, Some defaultUser)]"
    using c by (simp add: mount_user_cell)
  have k: "set (listeners (UserProvider_user mount)) = {Header_node, Profile_node}"
    by (simp add: mount_user_cell)
  show ?thesis using h d k a b j g i by blast
qed

subsection \<open>Logout\<close>

text \<open>
  Claim C4. In every state whose shared user value is a User record, whichever it is,
  activating the control succeeds and sets the shared user value to null; the
  notifications delivered by this event are one per registered listener, in registration
  order, each with null, so that every listener of the ordered set is notified exactly
  once.
\<close>

theorem logout_transition:
  assumes "read (UserProvider_user s) = Some u"
  shows "\<exists>s'. step s Click_login = Inr s'
     \<and> read (UserProvider_user s') = None
     \<and> listeners (UserProvider_user s') = listeners (UserProvider_user s)
     \<and> deliveries s s' = map (\<lambda>l. (l, None)) (listeners (UserProvider_user s))
     \<and> (distinct (listeners (UserProvider_user s)) \<longrightarrow>
          (\<forall>l \<in> set (listeners (UserProvider_user s)).
             filter (\<lambda>n. fst n = l) (deliveries s s') = [(l, None)]))"
proof -
  let ?s' = "UserProvider_setUser None s"
  have st: "step s Click_login = Inr ?s'"
    using assms by (simp add: step_Click_login)
  have once: "distinct (listeners (UserProvider_user s)) \<longrightarrow>
          (\<forall>l \<in> set (listeners (UserProvider_user s)).
             filter (\<lambda>n. fst n = l) (deliveries s ?s') = [(l, None)])"
    by (simp add: deliveries_setUser filter_listener_once)
  show ?thesis
    using st once by (simp add: read_setUser listeners_setUser deliveries_setUser)
qed

theorem logout_transition_witness:
  "read (UserProvider_user (UserProvider_setUser (Some defaultUser) mount)) = Some defaultUser
   \<and> distinct (listeners (UserProvider_user (UserProvider_setUser (Some defaultUser) mount)))
   \<and> (\<exists>s'. step (UserProvider_setUser (Some defaultUser) mount) Click_login = Inr s'
        \<and> read (UserProvider_user s') = None
        \<and> deliveries (UserProvider_setUser (Some defaultUser) mount) s' =
            [(Header_node, None), (Profile_node, None)]
        \<and> filter (\<lambda>n. fst n = Header_node)
             (deliveries (UserProvider_setUser (Some defaultUser) mount) s') = [(Header_node, None)]
        \<and> filter (\<lambda>n. fst n = Profile_node)
             (deliveries (UserProvider_setUser (Some defaultUser) mount) s') = [(Profile_node, None)])"
proof -
  let ?s = "UserProvider_setUser (Some defaultUser) mount"
  have h: "read (UserProvider_user ?s) = Some defaultUser"
    by (simp add: logged_in_state read_def)
  have d: "distinct (listeners (UserProvider_user ?s))"
    by (simp add: logged_in_state)
  from logout_transition [OF h] obtain s' where
    a: "step ?s Click_login = Inr s'" and
    b: "read (UserProvider_user s') = None" and
    c: "deliveries ?s s' = map (\<lambda>l. (l, None)) (listeners (UserProvider_user ?s))" and
    e: "distinct (listeners (UserProvider_user ?s)) \<longrightarrow>
          (\<forall>l \<in> set (listeners (UserProvider_user ?s)).
             filter (\<lambda>n. fst n = l) (deliveries ?s s') = [(l, None)])"
    by blast
  from e d have f: "\<forall>l \<in> set (listeners (UserProvider_user ?s)).
             filter (\<lambda>n. fst n = l) (deliveries ?s s') = [(l, None)]"
    by blast
  have g: "filter (\<lambda>n. fst n = Header_node) (deliveries ?s s') = [(Header_node, None)]"
    using f by (simp add: logged_in_state)
  have i: "filter (\<lambda>n. fst n = Profile_node) (deliveries ?s s') = [(Profile_node, None)]"
    using f by (simp add: logged_in_state)
  have j: "deliveries ?s s' = [(Header_node, None), (Profile_node, None)]"
    using c by (simp add: logged_in_state)
  show ?thesis using h d a b j g i by blast
qed

subsection \<open>What Profile renders\<close>

text \<open>
  Claim C2. Under the provider, for every value of the shared user cell, Profile renders
  the placeholder heading exactly when the value is null, and renders the heading made of
  the user's name followed by "'s Profile", with the interests handed to Interests as
  they are (and the theme), exactly when the value is that User record. The two
  examples after the theorem are the default record and a record without interests.
\<close>

theorem profile_render:
  "(UserProvider s (Profile theme) =
      Inr (Element ''h2'' [] [Text ''Please Login To View Profile'']))
     = (read (UserProvider_user s) = None)
   \<and> (UserProvider s (Profile theme) =
        Inr (Element ''div'' []
          [Element ''h2'' [] [Text (name u), Text (CHR 0x27 # ''s Profile'')],
           Interests (interests u) theme]))
     = (read (UserProvider_user s) = Some u)
   \<and> text_content (Element ''h2'' [] [Text (name u), Text (CHR 0x27 # ''s Profile'')])
     = name u @ CHR 0x27 # ''s Profile''"
  by (cases "read (UserProvider_user s)")
     (auto simp add: UserProvider_def Profile_def useContext_def Let_def)

lemma Profile_of_defaultUser:
  "UserProvider (UserProvider_setUser (Some defaultUser) mount) (Profile ''dark'') =
     Inr (Element ''div'' []
       [Element ''h2'' [] [Text ''Duane'', Text (CHR 0x27 # ''s Profile'')],
        Interests [''Coding'', ''Biking'', ''Words ending in 'ing'' @ [CHR 0x27]] ''dark''])"
  by (simp add: UserProvider_def Profile_def useContext_def Let_def read_setUser
      defaultUser_def)

lemma Profile_without_interests:
  "UserProvider (UserProvider_setUser (Some \<lparr>name = ''Ada'', interests = []\<rparr>) mount)
     (Profile ''light'') =
     Inr (Element ''div'' []
       [Element ''h2'' [] [Text ''Ada'', Text (CHR 0x27 # ''s Profile'')],
        Interests [] ''light''])"
  by (simp add: UserProvider_def Profile_def useContext_def Let_def read_setUser)

subsection \<open>The label of the control in Header\<close>

text \<open>
  Claim C6. Under the provider, for every value of the shared user cell, Header renders
  exactly one button; its label is "Login" exactly when the value is null and "Logout"
  exactly when the value is a User record.
\<close>

theorem header_label:
  "\<exists>v. UserProvider s (Header theme setTheme) = Inr v
     \<and> length (button_labels v) = 1
     \<and> (button_labels v = [''Login'']) = (read (UserProvider_user s) = None)
     \<and> (button_labels v = [''Logout'']) = (\<exists>u. read (UserProvider_user s) = Some u)"
  by (cases "read (UserProvider_user s)")
     (simp_all add: UserProvider_def Header_def useContext_def Let_def ThemedButton_def
        DarkModeToggle_def button_labels_def)

subsection \<open>A consumer outside any provider\<close>

text \<open>
  Claim C5, as stated: a consumer outside any provider fails at its first read with a
  missing-provider error. The code does not: the context is created with the empty
  object as its default value, so the read returns that object and both consumers
  render without error.
\<close>

theorem missing_provider_counterexample:
  "useContext None = \<lparr>user = Undefined, setUser = Undefined\<rparr>
   \<and> Profile ''dark'' None = Inr (Element ''h2'' [] [Text ''Please Login To View Profile''])
   \<and> \<not> isl (Profile ''dark'' None)
   \<and> \<not> isl (Header ''dark'' App_setTheme None)"
  by (simp add: useContext_def UserContext_default_def Profile_def Header_def Let_def)

text \<open>
  Claim C5, amended. Outside any provider the read returns the default object, in which
  both \<^verbatim>\<open>user\<close> and \<^verbatim>\<open>setUser\<close> are absent, and raises nothing: Profile renders
  the placeholder and Header renders the "Login" control, whatever the theme. Of the two
  controls that Header renders, the dark-mode toggle works as under a provider: a change
  succeeds and hands "dark" or "light" to \<^verbatim>\<open>setTheme\<close>. The missing provider shows
  only when the login control is activated: the call of the absent \<^verbatim>\<open>setUser\<close> is
  an error, a TypeError.
\<close>

theorem missing_provider_default:
  "useContext None = \<lparr>user = Undefined, setUser = Undefined\<rparr>
   \<and> Profile theme None = Inr (Element ''h2'' [] [Text ''Please Login To View Profile''])
   \<and> (\<exists>v. Header theme setTheme None = Inr v
        \<and> button_labels v = [''Login'']
        \<and> change v b s = Inr (setTheme (if b then ''dark'' else ''light'') s)
        \<and> click v s = Inl (TypeError ''setUser is not a function''))"
  by (simp add: useContext_def UserContext_default_def Profile_def Header_def Let_def
      ThemedButton_def DarkModeToggle_def button_labels_def click_def change_def
      handleLogin_def handleToggleTheme_def)

subsection \<open>The theme\<close>

text \<open>
  Claim C7. The theme is "dark" at the mount; the change handler of the dark-mode toggle
  writes "dark" when the checkbox is checked and "light" otherwise; the login control
  leaves the theme as it is; hence in every reachable state the theme is "dark" or
  "light".
\<close>

theorem theme_invariant:
  "read (App_theme mount) = ''dark''
   \<and> (\<exists>s'. step s0 (Change_dark_mode b) = Inr s'
        \<and> read (App_theme s') = (if b then ''dark'' else ''light''))
   \<and> (\<exists>s'. step s0 Click_login = Inr s' \<and> read (App_theme s') = read (App_theme s0))
   \<and> (reachable s \<longrightarrow> read (App_theme s) \<in> {''dark'', ''light''})"
proof -
  have a: "read (App_theme mount) = ''dark''"
    by (simp add: mount_def create_def read_def)
  have b: "\<exists>s'. step s0 (Change_dark_mode b) = Inr s'
        \<and> read (App_theme s') = (if b then ''dark'' else ''light'')"
    by (simp add: step_Change_dark_mode read_setTheme)
  have c: "\<exists>s'. step s0 Click_login = Inr s' \<and> read (App_theme s') = read (App_theme s0)"
    by (simp add: step_Click_login UserProvider_setUser_def)
  have d: "reachable s \<longrightarrow> read (App_theme s) \<in> {''dark'', ''light''}"
    using theme_reachable [of s] by auto
  from a b c d show ?thesis by blast
qed

theorem theme_invariant_witness:
  "reachable (App_setTheme ''light'' mount)
   \<and> read (App_theme (App_setTheme ''light'' mount)) \<in> {''dark'', ''light''}"
proof -
  have st: "step mount (Change_dark_mode False) = Inr (App_setTheme ''light'' mount)"
    by (simp add: step_Change_dark_mode)
  have r: "reachable (App_setTheme ''light'' mount)"
    by (rule reachable_step [OF reachable_mount st])
  with theme_invariant [of mount False "App_setTheme ''light'' mount"]
  show ?thesis by blast
qed

subsection \<open>Isolation of the user and the theme\<close>



subsection \<open>The values of the shared user cell\<close>

text \<open>
  Claim C9. In every state reachable from the mount through the two controls, the shared
  user value is null or the default record (name "Duane", interests "Coding", "Biking",
  "Words ending in 'ing'"), and no other value was ever notified to a listener of the
  cell.
\<close>

theorem user_invariant:
  "reachable s \<Longrightarrow>
     (read (UserProvider_user s) = None
      \<or> read (UserProvider_user s) =
           Some \<lparr>name = ''Duane'',
                 interests = [''Coding'', ''Biking'', ''Words ending in 'ing'' @ [CHR 0x27]]\<rparr>)
     \<and> (read (UserProvider_user s) = None \<or> read (UserProvider_user s) = Some defaultUser)
     \<and> snd ` set (notified (UserProvider_user s)) \<subseteq> {None, Some defaultUser}"
  using user_reachable [of s] by (simp add: defaultUser_def)

theorem user_invariant_witness:
  "reachable (UserProvider_setUser (Some defaultUser) mount)
   \<and> read (UserProvider_user (UserProvider_setUser (Some defaultUser) mount)) = Some defaultUser
   \<and> snd ` set (notified (UserProvider_user (UserProvider_setUser (Some defaultUser) mount)))
       \<subseteq> {None, Some defaultUser}"
proof -
  have st: "step mount Click_login = Inr (UserProvider_setUser (Some defaultUser) mount)"
    by (simp add: step_Click_login mount_user_cell read_def)
  have r: "reachable (UserProvider_setUser (Some defaultUser) mount)"
    by (rule reachable_step [OF reachable_mount st])
  from user_invariant [OF r] show ?thesis
    using r by (simp add: read_setUser)
qed

subsection \<open>Activating the control twice\<close>

text \<open>
  Claim C10. From a state whose shared user value is null or the default record,
  activating the login/logout control twice in a row succeeds both times and gives back
  the user value there was before the first activation (and the same theme).
\<close>

theorem login_involution:
  assumes "read (UserProvider_user s) = None \<or> read (UserProvider_user s) = Some defaultUser"
  shows "\<exists>s1 s2. step s Click_login = Inr s1 \<and> step s1 Click_login = Inr s2
     \<and> read (UserProvider_user s2) = read (UserProvider_user s)
     \<and> read (App_theme s2) = read (App_theme s)"
  using assms
  by (auto simp add: step_Click_login read_setUser UserProvider_setUser_def read_write)

theorem login_involution_witness:
  "read (UserProvider_user mount) = None
   \<and> (\<exists>s1 s2. step mount Click_login = Inr s1 \<and> step s1 Click_login = Inr s2
     \<and> read (UserProvider_user s1) = Some defaultUser
     \<and> read (UserProvider_user s2) = None)"
proof -
  have h: "read (UserProvider_user mount) = None"
    by (simp add: mount_user_cell read_def)
  then have "read (UserProvider_user mount) = None \<or> read (UserProvider_user mount) = Some defaultUser"
    by simp
  from login_involution [OF this] obtain s1 s2 where
    a: "step mount Click_login = Inr s1" and b: "step s1 Click_login = Inr s2" and
    c: "read (UserProvider_user s2) = read (UserProvider_user mount)"
    by blast
  from a h have "read (UserProvider_user s1) = Some defaultUser"
    by (auto simp add: step_Click_login read_setUser)
  with a b c h show ?thesis by auto
qed

end
